theory Spec2Isabelle
  imports Main "HOL-Library.AList"
begin

section \<open>JavaScript values and raised conditions\<close>

text \<open>
  The values that reach the rule engine.  Numbers are the integers among the
  JavaScript numbers.  An object or a function carries its identity and the
  identities of the constructors whose prototype lies on its prototype chain.
  Strict equality (\<open>===\<close>) on these values is HOL equality: by value on primitives,
  by identity on objects and functions.
\<close>

datatype jsval =
    JUndefined
  | JNull
  | JBool bool
  | JNum int
  | JStr string
  | JObj nat "nat list"
  | JFun nat "nat list"

text \<open>
  Every condition the library raises, and \<open>Thrown\<close> for what user code throws.
  \<open>UserCode\<close> is no condition: it marks a call that has left the library for an
  exposed operation of a perimeter, which the model follows no further.
\<close>

datatype error =
    AccessDenied string
  | ArgumentError string
  | WrongRuleDefinition
  | NoSandboxError
  | NoGovernessError
  | RestrictedMethodError
  | NoExposedMethodError
  | TypeError
  | Error string
  | Thrown jsval
  | UserCode

fun js_truthy :: "jsval \<Rightarrow> bool" where
  "js_truthy JUndefined = False"
| "js_truthy JNull = False"
| "js_truthy (JBool b) = b"
| "js_truthy (JNum n) = (n \<noteq> 0)"
| "js_truthy (JStr s) = (s \<noteq> [])"
| "js_truthy (JObj _ _) = True"
| "js_truthy (JFun _ _) = True"

fun isString :: "jsval \<Rightarrow> bool" where
  "isString (JStr _) = True"
| "isString _ = False"

text \<open>\<open>args[0]\<close>: reading past the end of a JavaScript array gives \<open>undefined\<close>.\<close>

fun first_arg :: "jsval list \<Rightarrow> jsval" where
  "first_arg [] = JUndefined"
| "first_arg (x # _) = x"

fun proto_chain :: "jsval \<Rightarrow> nat list" where
  "proto_chain (JObj _ chain) = chain"
| "proto_chain (JFun _ chain) = chain"
| "proto_chain _ = []"

text \<open>
  \<open>subject instanceof item\<close> inside \<open>try\<close>/\<open>catch\<close>: an item that is not callable
  makes \<open>instanceof\<close> raise, which \<open>_verifyItems\<close> swallows, leaving \<open>false\<close>; a
  primitive subject is an instance of nothing.
\<close>

fun instanceof_caught :: "jsval \<Rightarrow> jsval \<Rightarrow> bool" where
  "instanceof_caught subject (JFun c _) = (c \<in> set (proto_chain subject))"
| "instanceof_caught subject _ = False"

section \<open>utils/AllowedMethodsService\<close>

definition ident_start :: "char \<Rightarrow> bool" where
  "ident_start c = (c \<in> set ''abcdefghijklmnopqrstuvwxyzABCDEFGHIJKLMNOPQRSTUVWXYZ_$'')"

definition ident_char :: "char \<Rightarrow> bool" where
  "ident_char c = (c \<in> set ''abcdefghijklmnopqrstuvwxyzABCDEFGHIJKLMNOPQRSTUVWXYZ0123456789_$'')"

text \<open>\<open>/^[a-z_$][a-zA-Z0-9_$]*$/i\<close>\<close>

fun METHOD_NAME_REGEX_test :: "string \<Rightarrow> bool" where
  "METHOD_NAME_REGEX_test [] = False"
| "METHOD_NAME_REGEX_test (c # cs) = (ident_start c \<and> list_all ident_char cs)"

definition getReservedWords :: "string list" where
  "getReservedWords =
    [''abstract'', ''arguments'', ''await'', ''boolean'', ''break'', ''byte'',
     ''case'', ''catch'', ''char'', ''class'', ''const'', ''continue'',
     ''debugger'', ''default'', ''delete'', ''do'', ''double'', ''else'',
     ''enum'', ''eval'', ''export'', ''extends'', ''false'', ''final'',
     ''finally'', ''float'', ''for'', ''function'', ''goto'', ''if'',
     ''implements'', ''import'', ''in'', ''instanceof'', ''int'', ''interface'',
     ''let'', ''long'', ''native'', ''new'', ''null'', ''package'',
     ''private'', ''protected'', ''public'', ''return'', ''short'', ''static'',
     ''super'', ''switch'', ''synchronized'', ''this'', ''throw'', ''throws'',
     ''transient'', ''true'', ''try'', ''typeof'', ''var'', ''void'',
     ''volatile'', ''while'', ''with'', ''yield'']"

definition getCustomUnsafeList :: "string list" where
  "getCustomUnsafeList =
    [''constructor'', ''prototype'', ''hasOwnProperty'', ''isPrototypeOf'',
     ''propertyIsEnumerable'', ''toLocaleString'', ''toString'', ''valueOf'']"

text \<open>
  \<open>isRestricted\<close>, for a method name that is a string.  The first argument is
  \<open>keys(dummyObj)\<close>, the own enumerable property names of the object the name would
  be added to.
\<close>

definition isRestricted :: "string list \<Rightarrow> string \<Rightarrow> bool" where
  "isRestricted dummyKeys methodName =
    (if \<not> METHOD_NAME_REGEX_test methodName then True
     else methodName \<in> set dummyKeys
        \<or> methodName \<in> set getCustomUnsafeList
        \<or> methodName \<in> set getReservedWords)"

section \<open>rules/Type and rules/Definition\<close>

text \<open>
  The state of user code: the variables that rule functions capture and the
  \<open>lastIndex\<close> fields of RegExp objects, as numbered cells that hold values.  A piece
  of user code runs on that state, returns or throws, and leaves a state behind.
\<close>

type_synonym ustate = "nat \<Rightarrow> jsval"

type_synonym 'a user_code = "ustate \<Rightarrow> (error + 'a) \<times> ustate"

text \<open>
  What a rule definition can be when it reaches \<open>new Rule(str, def)\<close>: an array, a
  RegExp, a function, or any other value (\<open>RawOther\<close>: a boolean, a string, a number,
  a plain object, \<open>undefined\<close>).  A RegExp is its \<open>test\<close> on the subject: it
  converts the subject to a string, which may throw, and with the \<open>g\<close> or \<open>y\<close> flag
  it reads and writes its \<open>lastIndex\<close>.  A function is what it does on the argument
  list once applied to its \<open>ruleContext\<close>; the context only fixes \<open>this\<close> inside the
  function, so it is not kept apart from the function.  Two definitions that share
  a RegExp object or a captured variable share the cell.  User code reached from a
  rule changes the user state only, not a governess, perimeter or sandbox.
\<close>

datatype rawdef =
    RawArray "jsval list"
  | RawRegExp "jsval \<Rightarrow> bool user_code"
  | RawFunction "jsval list \<Rightarrow> jsval user_code"
  | RawOther jsval

datatype definition_obj =
    Items "jsval list"
  | Regex "jsval \<Rightarrow> bool user_code"
  | CustomMethod "jsval list \<Rightarrow> jsval user_code"

record rule =
  type_raw :: string
  type_type :: string
  type_isPositive :: bool
  rule_definition :: definition_obj
  rule_perimeter :: "nat option"

definition ascii_lower :: "char \<Rightarrow> char" where
  "ascii_lower c =
    (case List.find (\<lambda>(u, l). u = c)
            (zip ''ABCDEFGHIJKLMNOPQRSTUVWXYZ'' ''abcdefghijklmnopqrstuvwxyz'') of
       Some (u, l) \<Rightarrow> l
     | None \<Rightarrow> c)"

definition ci_prefix :: "string \<Rightarrow> string \<Rightarrow> bool" where
  "ci_prefix kw s = (length kw \<le> length s \<and> map ascii_lower (take (length kw) s) = kw)"

fun space_ident :: "string \<Rightarrow> bool" where
  "space_ident [] = False"
| "space_ident (c # cs) = (c = CHR '' '' \<and> METHOD_NAME_REGEX_test cs)"

text \<open>
  \<open>str.match(/^can(not)? ([a-z_$][a-zA-Z0-9_$]*)$/i)\<close>: \<open>None\<close> for no match,
  otherwise whether group 1 (\<open>not\<close>) took part, and group 2, the action.
\<close>

definition TYPE_REGEX_match :: "string \<Rightarrow> (bool \<times> string) option" where
  "TYPE_REGEX_match str =
    (if ci_prefix ''can'' str then
       (let rest = drop 3 str in
        if ci_prefix ''not'' rest \<and> space_ident (drop 3 rest) then Some (True, drop 4 rest)
        else if space_ident rest then Some (False, drop 1 rest)
        else None)
     else None)"

text \<open>
  The constructor of \<open>Type\<close> with its \<open>validate\<close>; the service is built on the empty
  object, so no name is restricted through \<open>dummyObj\<close>.  Returns raw, type, _isPositive.
\<close>

definition Type_new :: "jsval \<Rightarrow> error + (string \<times> string \<times> bool)" where
  "Type_new str =
    (case str of
       JStr s \<Rightarrow>
         (case TYPE_REGEX_match s of
            None \<Rightarrow> Inl WrongRuleDefinition
          | Some (has_not, action) \<Rightarrow>
              if isRestricted [] action then Inl WrongRuleDefinition
              else Inr (s, action, \<not> has_not))
     | _ \<Rightarrow> Inl WrongRuleDefinition)"

text \<open>
  \<open>Definition._resolve\<close>: the first entry of \<open>TYPES\<close> whose condition holds of the raw
  definition; none holds of an empty array or of a value that is neither array,
  RegExp nor function.
\<close>

definition Definition_resolve :: "rawdef \<Rightarrow> error + definition_obj" where
  "Definition_resolve raw =
    (case raw of
       RawArray xs \<Rightarrow> if xs \<noteq> [] then Inr (Items xs) else Inl WrongRuleDefinition
     | RawRegExp t \<Rightarrow> Inr (Regex t)
     | RawFunction f \<Rightarrow> Inr (CustomMethod f)
     | RawOther v \<Rightarrow> Inl WrongRuleDefinition)"

fun isStrictByDefault :: "definition_obj \<Rightarrow> bool" where
  "isStrictByDefault (Items _) = False"
| "isStrictByDefault (Regex _) = True"
| "isStrictByDefault (CustomMethod _) = True"

section \<open>Rule\<close>

definition Rule_new :: "jsval \<Rightarrow> rawdef \<Rightarrow> error + rule" where
  "Rule_new str def =
    (case Type_new str of
       Inl e \<Rightarrow> Inl e
     | Inr (raw, action, positive) \<Rightarrow>
         (case Definition_resolve def of
            Inl e \<Rightarrow> Inl e
          | Inr d \<Rightarrow>
              Inr \<lparr>type_raw = raw, type_type = action, type_isPositive = positive,
                   rule_definition = d, rule_perimeter = None\<rparr>))"

definition isPositive :: "rule \<Rightarrow> bool" where
  "isPositive r = type_isPositive r"

definition isNegative :: "rule \<Rightarrow> bool" where
  "isNegative r = (\<not> isPositive r)"

definition isOfType :: "rule \<Rightarrow> string \<Rightarrow> bool" where
  "isOfType r action = (type_type r = action)"

text \<open>The method \<open>Definition.isStrict()\<close>.\<close>

definition isStrict :: "rule \<Rightarrow> bool" where
  "isStrict r = (isNegative r \<or> isStrictByDefault (rule_definition r))"

definition verifyItems :: "jsval list \<Rightarrow> jsval list \<Rightarrow> bool" where
  "verifyItems items args =
    (let subject = first_arg args
     in list_ex (\<lambda>item. instanceof_caught subject item \<or> item = subject) items)"

definition verifyRegex :: "(jsval \<Rightarrow> bool user_code) \<Rightarrow> jsval list \<Rightarrow> bool user_code" where
  "verifyRegex regex args u = regex (first_arg args) u"

text \<open>\<open>this[verifyMethodName](...args)\<close>: the dispatch on the definition's type.\<close>

fun verify_dispatch :: "definition_obj \<Rightarrow> jsval list \<Rightarrow> jsval user_code" where
  "verify_dispatch (Items items) args u = (Inr (JBool (verifyItems items args)), u)"
| "verify_dispatch (Regex regex) args u =
    (case verifyRegex regex args u of
       (Inl e, u') \<Rightarrow> (Inl e, u')
     | (Inr b, u') \<Rightarrow> (Inr (JBool b), u'))"
| "verify_dispatch (CustomMethod customMethod) args u = customMethod args u"

definition verify :: "rule \<Rightarrow> jsval list \<Rightarrow> jsval user_code" where
  "verify r args u =
    (case verify_dispatch (rule_definition r) args u of
       (Inl e, u') \<Rightarrow> (Inl e, u')
     | (Inr result, u') \<Rightarrow>
         (if isPositive r then Inr result else Inr (JBool (\<not> js_truthy result)), u'))"

section \<open>governesses/HeadGoverness\<close>

datatype governess_class =
  HeadGoverness | EasyGoverness | GermanGoverness | MiddlewareGoverness | StrictGoverness

text \<open>
  A governess object.  \<open>cls\<close> is the class it was constructed from; \<open>guardCount\<close> and
  \<open>governedCount\<close> are the fields \<open>_guardCount\<close> and \<open>_governedCount\<close> that only a
  StrictGoverness uses: whole numbers from 0 to \<open>2^53\<close>, see \<open>js_increment\<close>.  \<open>unguarded\<close> is \<open>_unguarded\<close>, which the
  setter stores as a boolean.  The rule list holds Rule objects only (\<open>addRule\<close> admits nothing else),
  so the \<open>isRule(rule)\<close> test inside \<open>isAllowed\<close> always succeeds.
\<close>

record governess =
  cls :: governess_class
  rules :: "rule list"
  unguarded :: bool
  guardCount :: nat
  governedCount :: nat

definition HeadGoverness_new :: governess where
  "HeadGoverness_new =
    \<lparr>cls = HeadGoverness, rules = [], unguarded = False, guardCount = 0, governedCount = 0\<rparr>"

definition isUnguarded :: "governess \<Rightarrow> bool" where
  "isUnguarded g = unguarded g"

text \<open>\<open>getRules(action)\<close>: a falsy action (the empty string) selects every rule.\<close>

definition getRules :: "governess \<Rightarrow> string \<Rightarrow> rule list" where
  "getRules g action =
    (if action \<noteq> [] then filter (\<lambda>rule. isOfType rule action) (rules g) else rules g)"

text \<open>
  \<open>isAllowed\<close> reads the member \<open>rule.definition.isStrict\<close> without calling it.  The
  member is the method of class Definition, a function object, hence truthy for
  every rule.
\<close>

definition isStrict_member_truthy :: "rule \<Rightarrow> bool" where
  "isStrict_member_truthy r = True"

text \<open>
  The body of the \<open>each\<close> loop in \<open>isAllowed\<close>, threading the two arrays
  \<open>allowRules\<close> and \<open>strictDisallowRules\<close> and the user state, which each
  verification may change; a verification that throws ends the loop.
\<close>

fun isAllowed_each ::
  "rule list \<Rightarrow> jsval list \<Rightarrow> rule list \<Rightarrow> rule list \<Rightarrow> (rule list \<times> rule list) user_code" where
  "isAllowed_each [] args allowRules strictDisallowRules u =
     (Inr (allowRules, strictDisallowRules), u)"
| "isAllowed_each (rule # rest) args allowRules strictDisallowRules u =
    (case verify rule args u of
       (Inl e, u') \<Rightarrow> (Inl e, u')
     | (Inr verificationResult, u') \<Rightarrow>
         isAllowed_each rest args
           (if isPositive rule \<and> js_truthy verificationResult
            then allowRules @ [rule] else allowRules)
           (if isNegative rule \<and> js_truthy verificationResult
            then strictDisallowRules @ [rule]
            else if isPositive rule \<and> isStrict_member_truthy rule \<and> \<not> js_truthy verificationResult
            then strictDisallowRules @ [rule]
            else strictDisallowRules)
           u')"

definition isAllowed :: "governess \<Rightarrow> string \<Rightarrow> jsval list \<Rightarrow> bool user_code" where
  "isAllowed g action args u =
    (if isUnguarded g then (Inr True, u)
     else
       (case isAllowed_each (getRules g action) args [] [] u of
          (Inl e, u') \<Rightarrow> (Inl e, u')
        | (Inr (allowRules, strictDisallowRules), u') \<Rightarrow>
            (Inr (allowRules \<noteq> [] \<and> strictDisallowRules = []), u')))"

definition isNotAllowed :: "governess \<Rightarrow> string \<Rightarrow> jsval list \<Rightarrow> bool user_code" where
  "isNotAllowed g action args u =
    (case isAllowed g action args u of (res, u') \<Rightarrow> (map_sum id Not res, u'))"

definition denied_message :: "string \<Rightarrow> jsval \<Rightarrow> string" where
  "denied_message action target =
    ''Child is not allowed to '' @ action @ '' '' @
      (case target of JStr t \<Rightarrow> t | _ \<Rightarrow> ''the target'') @ ''.''"

definition guard :: "governess \<Rightarrow> string \<Rightarrow> jsval list \<Rightarrow> jsval user_code" where
  "guard g action args u =
    (let target = first_arg args
     in case isAllowed g action args u of
          (Inl e, u') \<Rightarrow> (Inl e, u')
        | (Inr allowed, u') \<Rightarrow>
            (if allowed then Inr target else Inl (AccessDenied (denied_message action target)),
             u'))"

text \<open>
  A callback is user code as well: applied to its \<open>this\<close> and its argument list it
  returns a value or throws, and on the way it may change the governess (call
  \<open>guard\<close>, assign \<open>unguarded\<close>, add rules) and the user state.  A throw keeps the
  changes made before it.
\<close>

type_synonym callback =
  "jsval \<Rightarrow> jsval list \<Rightarrow> governess \<Rightarrow> ustate \<Rightarrow> (error + jsval) \<times> governess \<times> ustate"


text \<open>What may be passed where a Rule is expected.\<close>

datatype rule_arg = IsRule rule | NotRule jsval

definition learn_message :: string where
  "learn_message = ''Governess cannot learn the rule. Does it inherit from Rule class?''"

fun addRule_each :: "rule_arg list \<Rightarrow> nat \<Rightarrow> governess \<Rightarrow> (error + nat) \<times> governess" where
  "addRule_each [] counter g = (Inr counter, g)"
| "addRule_each (NotRule v # rest) counter g = (Inl (ArgumentError learn_message), g)"
| "addRule_each (IsRule rule # rest) counter g =
     addRule_each rest (counter + 1) (g\<lparr>rules := rules g @ [rule]\<rparr>)"

definition addRule :: "governess \<Rightarrow> rule_arg list \<Rightarrow> (error + nat) \<times> governess" where
  "addRule g rs = addRule_each rs 0 g"

definition hasRule :: "governess \<Rightarrow> nat \<Rightarrow> rule \<Rightarrow> bool" where
  "hasRule g perimeter rule =
    list_ex (\<lambda>r. type_raw r = type_raw rule \<and> rule_perimeter r = Some perimeter) (rules g)"

text \<open>
  \<open>learnRules(perimeter)\<close>, given the reference of the perimeter and the entries of
  its \<open>govern\<close> object in enumeration order.
\<close>

fun learnRules_forIn ::
  "(string \<times> rawdef) list \<Rightarrow> nat \<Rightarrow> nat \<Rightarrow> governess \<Rightarrow> (error + nat) \<times> governess" where
  "learnRules_forIn [] perimeter keys g = (Inr keys, g)"
| "learnRules_forIn ((key, ruleDef) # rest) perimeter keys g =
    (case Rule_new (JStr key) ruleDef of
       Inl e \<Rightarrow> (Inl e, g)
     | Inr r \<Rightarrow>
         (let rule = r\<lparr>rule_perimeter := Some perimeter\<rparr>
          in if \<not> hasRule g perimeter rule
             then (case addRule g [IsRule rule] of
                     (Inl e, g') \<Rightarrow> (Inl e, g')
                   | (Inr _, g') \<Rightarrow> learnRules_forIn rest perimeter (keys + 1) g')
             else learnRules_forIn rest perimeter keys g))"

definition learnRules ::
  "governess \<Rightarrow> nat \<Rightarrow> (string \<times> rawdef) list \<Rightarrow> (error + nat) \<times> governess" where
  "learnRules g perimeter governObj = learnRules_forIn governObj perimeter 0 g"

definition hasAnyRules :: "governess \<Rightarrow> bool" where
  "hasAnyRules g = (rules g \<noteq> [])"

text \<open>
  \<open>doUnguarded(callback, context)\<close>; \<open>None\<close> stands for a first argument that is not
  a function.  The \<open>finally\<close> block runs on both exits of the callback.
\<close>

definition doUnguarded ::
  "governess \<Rightarrow> callback option \<Rightarrow> jsval \<Rightarrow> ustate \<Rightarrow> (error + jsval) \<times> governess \<times> ustate" where
  "doUnguarded g callback context u =
    (let context' = (if js_truthy context then context else JNull)
     in case callback of
          None \<Rightarrow> (Inr JUndefined, g, u)
        | Some cb \<Rightarrow>
            (let previousUnguardedState = unguarded g;
                 (returnValue, g', u') = cb context' [] (g\<lparr>unguarded := True\<rparr>) u
             in (returnValue, g'\<lparr>unguarded := previousUnguardedState\<rparr>, u')))"

definition isGuarded :: "governess \<Rightarrow> bool" where
  "isGuarded g = (\<not> isUnguarded g)"

section \<open>governesses/EasyGoverness and governesses/StrictGoverness\<close>

definition EasyGoverness_new :: governess where
  "EasyGoverness_new = HeadGoverness_new\<lparr>cls := EasyGoverness, unguarded := True\<rparr>"

definition StrictGoverness_new :: governess where
  "StrictGoverness_new =
    HeadGoverness_new\<lparr>cls := StrictGoverness, guardCount := 0, governedCount := 0\<rparr>"






section \<open>Perimeter, Purpose and Sandbox\<close>

text \<open>
  Perimeters, sandboxes and governesses are shared by reference: a governess may
  serve a sandbox and a perimeter at once, and a perimeter may be handed to more
  than one sandbox.  They live in a store, and a reference is an index into it.
  A reference that denotes no object stands for \<open>undefined\<close>; using it raises
  \<open>TypeError\<close>.  Writes to the console (\<open>Logger.warn\<close>) are not part of the state.
\<close>

record perimeter =
  p_purpose :: string
  p_govern :: "(string \<times> rawdef) list"
  p_expose :: "string list"
  p_governess :: "nat option"
  p_purposeGoverness :: "nat option"
  p_sandbox :: "nat option"
  p_child :: jsval
  p_functions :: "string list"

text \<open>
  \<open>p_functions\<close> lists the member names \<open>m\<close> for which \<open>perimeter[m]\<close> is a function.
  A Purpose holds its name, its sandbox and the trampolines installed on it: the
  exposed name, with the perimeter and the member the trampoline will call.
\<close>

record purpose =
  purpose_name :: string
  purpose_sandbox :: nat
  purpose_methods :: "(string \<times> nat \<times> string) list"

text \<open>
  \<open>s_purposes\<close> holds what \<open>this[name] = purpose\<close> has stored on the sandbox object,
  by name and in the order of the first assignment.  Each is an own property of
  the object, except the one stored under \<open>__proto__\<close>: that assignment makes the
  Purpose the prototype of the object, in place of \<open>Sandbox.prototype\<close>.
\<close>

record sandbox =
  s_child :: jsval
  s_governess :: nat
  s_perimeters :: "nat list"
  s_purposes :: "(string \<times> purpose) list"

record heap =
  h_governesses :: "governess list"
  h_perimeters :: "perimeter list"
  h_sandboxes :: "sandbox list"

definition deref :: "'a list \<Rightarrow> nat \<Rightarrow> 'a option" where
  "deref xs r = (if r < length xs then Some (xs ! r) else None)"

datatype perimeter_arg = IsPerimeter nat | NotPerimeter jsval

text \<open>
  What may be assigned where a Sandbox is expected: \<open>IsSandbox r\<close> is a value that
  \<open>isSandbox\<close> accepts, the Sandbox at \<open>r\<close>.
\<close>

datatype sandbox_arg = IsSandbox nat | NotSandbox jsval

text \<open>Sequencing of two steps on the store; an error ends the sequence and keeps the store.\<close>

definition and_then ::
  "(error + 'a) \<times> heap \<Rightarrow> ('a \<Rightarrow> heap \<Rightarrow> (error + 'b) \<times> heap) \<Rightarrow> (error + 'b) \<times> heap" where
  "and_then step k = (case step of (Inl e, h) \<Rightarrow> (Inl e, h) | (Inr x, h) \<Rightarrow> k x h)"

subsection \<open>Perimeter\<close>

text \<open>The setter of \<open>sandbox\<close>.\<close>

definition Perimeter_set_sandbox :: "heap \<Rightarrow> nat \<Rightarrow> sandbox_arg \<Rightarrow> (error + unit) \<times> heap" where
  "Perimeter_set_sandbox h this val =
    (case val of
       NotSandbox v \<Rightarrow> (Inl NoSandboxError, h)
     | IsSandbox sref \<Rightarrow>
         (case (deref (h_perimeters h) this, deref (h_sandboxes h) sref) of
            (Some p, Some s) \<Rightarrow>
              (Inr (),
               h\<lparr>h_perimeters :=
                    (h_perimeters h)[this := p\<lparr>p_sandbox := Some sref, p_child := s_child s\<rparr>]\<rparr>)
          | _ \<Rightarrow> (Inl TypeError, h)))"

definition Perimeter_get_sandbox :: "heap \<Rightarrow> nat \<Rightarrow> nat option" where
  "Perimeter_get_sandbox h this =
    (case deref (h_perimeters h) this of Some p \<Rightarrow> p_sandbox p | None \<Rightarrow> None)"

definition hasOwnGoverness :: "perimeter \<Rightarrow> bool" where
  "hasOwnGoverness p = (p_governess p \<noteq> None)"

text \<open>
  \<open>isSandbox(obj)\<close> for a sandbox object of the store: \<open>obj instanceof Sandbox\<close>,
  which holds as long as the prototype of the object has not been replaced.
\<close>

definition isSandbox :: "sandbox \<Rightarrow> bool" where
  "isSandbox s = (map_of (s_purposes s) ''__proto__'' = None)"

text \<open>The getter of \<open>governess\<close>: the perimeter's own, else its sandbox's, else \<open>null\<close>.\<close>

definition Perimeter_get_governess :: "heap \<Rightarrow> perimeter \<Rightarrow> nat option" where
  "Perimeter_get_governess h p =
    (if hasOwnGoverness p then p_governess p
     else (case p_sandbox p of
             Some sref \<Rightarrow>
               (case deref (h_sandboxes h) sref of
                  Some s \<Rightarrow> if isSandbox s then Some (s_governess s) else None
                | None \<Rightarrow> None)
           | None \<Rightarrow> None))"

text \<open>\<open>governess.learnRules(perimeter)\<close> on the store.\<close>

definition learnRules_at :: "nat \<Rightarrow> nat \<Rightarrow> heap \<Rightarrow> (error + nat) \<times> heap" where
  "learnRules_at gref pref h =
    (case (deref (h_governesses h) gref, deref (h_perimeters h) pref) of
       (Some g, Some p) \<Rightarrow>
         (case learnRules g pref (p_govern p) of
            (res, g') \<Rightarrow> (res, h\<lparr>h_governesses := (h_governesses h)[gref := g']\<rparr>))
     | _ \<Rightarrow> (Inl TypeError, h))"

subsection \<open>Purpose\<close>

definition Purpose_new :: "string \<Rightarrow> nat \<Rightarrow> purpose" where
  "Purpose_new name sref = \<lparr>purpose_name = name, purpose_sandbox = sref, purpose_methods = []\<rparr>"

text \<open>
  The loop of \<open>_loadPerimeter\<close>.  The service is built with \<open>isStrict = false\<close>, so the
  restricted names are the purpose's own keys when the call starts.  An assignment
  to an exposed name that is already installed replaces the trampoline.
\<close>

fun Purpose_loadPerimeter_each ::
  "string list \<Rightarrow> string list \<Rightarrow> nat \<Rightarrow> perimeter \<Rightarrow> purpose \<Rightarrow> (error + unit) \<times> purpose" where
  "Purpose_loadPerimeter_each [] initRestricted pref p this = (Inr (), this)"
| "Purpose_loadPerimeter_each (exposedMethod # rest) initRestricted pref p this =
    (if isRestricted initRestricted exposedMethod then (Inl RestrictedMethodError, this)
     else if exposedMethod \<notin> set (p_functions p) then (Inl NoExposedMethodError, this)
     else Purpose_loadPerimeter_each rest initRestricted pref p
            (this\<lparr>purpose_methods :=
                    AList.update exposedMethod (pref, exposedMethod) (purpose_methods this)\<rparr>))"

definition Purpose_keys :: "purpose \<Rightarrow> string list" where
  "Purpose_keys this = [''_name'', ''_sandbox''] @ map fst (purpose_methods this)"

definition Purpose_loadPerimeter ::
  "purpose \<Rightarrow> nat \<Rightarrow> perimeter \<Rightarrow> (error + unit) \<times> purpose" where
  "Purpose_loadPerimeter this pref p =
    (if p_expose p = [] then (Inr (), this)
     else Purpose_loadPerimeter_each (p_expose p) (Purpose_keys this) pref p this)"

subsection \<open>Sandbox\<close>

text \<open>\<open>keys(this)\<close>: the own enumerable property names of the sandbox object.\<close>

definition Sandbox_keys :: "sandbox \<Rightarrow> string list" where
  "Sandbox_keys s =
    [''child'', ''_governess'', ''_perimeters''] @
      filter (\<lambda>k. k \<noteq> ''__proto__'') (map fst (s_purposes s))"

text \<open>
  What \<open>this.m\<close> is on a sandbox object, for a method name \<open>m\<close> of class Sandbox
  (\<open>loadPerimeter\<close>, \<open>hasPerimeter\<close>, \<open>getPerimeters\<close>, \<open>_extendPurpose\<close>).  An own
  property of that name, which holds a Purpose, hides the method.  Without one the
  prototype answers: \<open>Sandbox.prototype\<close> with the method, or the Purpose that has
  taken its place, with a trampoline of that name or with \<open>undefined\<close>.
\<close>

datatype resolved = ClassMethod | NotCallable | Trampoline nat string

definition Sandbox_member :: "sandbox \<Rightarrow> string \<Rightarrow> resolved" where
  "Sandbox_member s m =
    (if m \<in> set (Sandbox_keys s) then NotCallable
     else (case map_of (s_purposes s) ''__proto__'' of
             None \<Rightarrow> ClassMethod
           | Some proto \<Rightarrow>
               (case map_of (purpose_methods proto) m of
                  Some (pref, member) \<Rightarrow> Trampoline pref member
                | None \<Rightarrow> NotCallable)))"

text \<open>
  The call \<open>this.m(...)\<close>: \<open>None\<close> when it enters the method of the class; calling
  what is not a function raises \<open>TypeError\<close>; a trampoline runs an exposed operation.
\<close>

definition Sandbox_call :: "sandbox \<Rightarrow> string \<Rightarrow> error option" where
  "Sandbox_call s m =
    (case Sandbox_member s m of
       ClassMethod \<Rightarrow> None
     | NotCallable \<Rightarrow> Some TypeError
     | Trampoline pref member \<Rightarrow> Some UserCode)"

definition getPerimeters :: "sandbox \<Rightarrow> nat list" where
  "getPerimeters s = s_perimeters s"

text \<open>
  The body of \<open>hasPerimeter\<close>, given the purpose name it compares with; it calls
  \<open>this.getPerimeters()\<close>.
\<close>

definition hasPerimeter :: "heap \<Rightarrow> sandbox \<Rightarrow> string \<Rightarrow> error + bool" where
  "hasPerimeter h s purpose =
    (case Sandbox_call s ''getPerimeters'' of
       Some e \<Rightarrow> Inl e
     | None \<Rightarrow>
         Inr (list_ex (\<lambda>q. case deref (h_perimeters h) q of
                             Some p \<Rightarrow> p_purpose p = purpose
                           | None \<Rightarrow> False) (getPerimeters s)))"

text \<open>
  \<open>new this.governess.constructor()\<close>: the constructor is called without arguments,
  which MiddlewareGoverness rejects.
\<close>

definition Governess_construct :: "governess_class \<Rightarrow> error + governess" where
  "Governess_construct c =
    (case c of
       HeadGoverness \<Rightarrow> Inr HeadGoverness_new
     | EasyGoverness \<Rightarrow> Inr EasyGoverness_new
     | GermanGoverness \<Rightarrow> Inr (HeadGoverness_new\<lparr>cls := GermanGoverness\<rparr>)
     | StrictGoverness \<Rightarrow> Inr StrictGoverness_new
     | MiddlewareGoverness \<Rightarrow>
         Inl (Error ''MiddlewareGoverness requires a middleware function as its first argument.''))"

text \<open>
  The call \<open>this._extendPurpose(perimeter)\<close>.  In the body, \<open>this[name]\<close> is read as
  stored before; assigning \<open>this[name]\<close> for the name \<open>governess\<close> runs the setter of
  Sandbox, which refuses a Purpose; for every other name the Purpose is stored
  under the name, and \<open>this[name]\<close> then yields it for \<open>_loadPerimeter\<close>.
\<close>

definition extendPurpose :: "nat \<Rightarrow> nat \<Rightarrow> heap \<Rightarrow> (error + unit) \<times> heap" where
  "extendPurpose sref pref h =
    (case (deref (h_sandboxes h) sref, deref (h_perimeters h) pref) of
       (Some s, Some p) \<Rightarrow>
         (case Sandbox_call s ''_extendPurpose'' of
            Some e \<Rightarrow> (Inl e, h)
          | None \<Rightarrow>
              (let name = p_purpose p
               in if isRestricted (Sandbox_keys s) name then (Inl RestrictedMethodError, h)
                  else if name = ''governess'' then (Inl NoGovernessError, h)
                  else
                    (let this_name = (case map_of (s_purposes s) name of
                                        Some existing \<Rightarrow> existing
                                      | None \<Rightarrow> Purpose_new name sref)
                     in case Purpose_loadPerimeter this_name pref p of
                          (res, loaded) \<Rightarrow>
                            (res,
                             h\<lparr>h_sandboxes :=
                                  (h_sandboxes h)
                                    [sref :=
                                       s\<lparr>s_purposes :=
                                            AList.update name loaded (s_purposes s)\<rparr>]\<rparr>))))
     | _ \<Rightarrow> (Inl TypeError, h))"

text \<open>The steps of the loop body of \<open>loadPerimeter\<close> for a perimeter not yet loaded.\<close>

definition learn_own_governess :: "nat \<Rightarrow> heap \<Rightarrow> (error + unit) \<times> heap" where
  "learn_own_governess pref h =
    (case deref (h_perimeters h) pref of
       None \<Rightarrow> (Inl TypeError, h)
     | Some p \<Rightarrow>
         (case Perimeter_get_governess h p of
            Some gref \<Rightarrow> and_then (learnRules_at gref pref h) (\<lambda>_ h'. (Inr (), h'))
          | None \<Rightarrow> (Inr (), h)))"

definition make_purposeGoverness :: "nat \<Rightarrow> nat \<Rightarrow> heap \<Rightarrow> (error + unit) \<times> heap" where
  "make_purposeGoverness sref pref h =
    (case (deref (h_sandboxes h) sref, deref (h_perimeters h) pref) of
       (Some s, Some p) \<Rightarrow>
         (if p_purposeGoverness p = None then
            (case deref (h_governesses h) (s_governess s) of
               None \<Rightarrow> (Inl TypeError, h)
             | Some main \<Rightarrow>
                 (case Governess_construct (cls main) of
                    Inl e \<Rightarrow> (Inl e, h)
                  | Inr fresh \<Rightarrow>
                      (let gref = length (h_governesses h);
                           h1 = h\<lparr>h_governesses := h_governesses h @ [fresh],
                                  h_perimeters :=
                                    (h_perimeters h)[pref := p\<lparr>p_purposeGoverness := Some gref\<rparr>]\<rparr>
                       in and_then (learnRules_at gref pref h1) (\<lambda>_ h'. (Inr (), h')))))
          else (Inr (), h))
     | _ \<Rightarrow> (Inl TypeError, h))"

definition learn_main_governess :: "nat \<Rightarrow> nat \<Rightarrow> heap \<Rightarrow> (error + unit) \<times> heap" where
  "learn_main_governess sref pref h =
    (case deref (h_sandboxes h) sref of
       None \<Rightarrow> (Inl TypeError, h)
     | Some s \<Rightarrow> and_then (learnRules_at (s_governess s) pref h) (\<lambda>_ h'. (Inr (), h')))"

definition push_perimeter :: "nat \<Rightarrow> nat \<Rightarrow> heap \<Rightarrow> (error + unit) \<times> heap" where
  "push_perimeter sref pref h =
    (case deref (h_sandboxes h) sref of
       None \<Rightarrow> (Inl TypeError, h)
     | Some s \<Rightarrow>
         (Inr (),
          h\<lparr>h_sandboxes := (h_sandboxes h)[sref := s\<lparr>s_perimeters := s_perimeters s @ [pref]\<rparr>]\<rparr>))"

definition load_new_perimeter :: "nat \<Rightarrow> nat \<Rightarrow> heap \<Rightarrow> (error + unit) \<times> heap" where
  "load_new_perimeter sref pref h =
    and_then (learn_own_governess pref h) (\<lambda>_ h1.
    and_then (make_purposeGoverness sref pref h1) (\<lambda>_ h2.
    and_then (learn_main_governess sref pref h2) (\<lambda>_ h3.
    and_then (Perimeter_set_sandbox h3 pref (IsSandbox sref)) (\<lambda>_ h4.
    and_then (push_perimeter sref pref h4) (\<lambda>_ h5.
    extendPurpose sref pref h5)))))"

definition module_message :: string where
  "module_message = ''Module must be instance of Kindergarten.Perimeter.''"

text \<open>
  The loop of \<open>loadPerimeter\<close>.  Each round reads \<open>this.hasPerimeter\<close> anew, so a
  purpose installed by an earlier round can hide the method from a later one.
  Where a round goes on past \<open>hasPerimeter\<close>, the object still has
  \<open>Sandbox.prototype\<close>, and rules are learned, the perimeter is bound and pushed
  before \<open>_extendPurpose\<close> is called.
\<close>

fun loadPerimeter_each ::
  "perimeter_arg list \<Rightarrow> nat \<Rightarrow> nat \<Rightarrow> heap \<Rightarrow> (error + nat) \<times> heap" where
  "loadPerimeter_each [] sref counter h = (Inr counter, h)"
| "loadPerimeter_each (NotPerimeter v # rest) sref counter h =
     (Inl (ArgumentError module_message), h)"
| "loadPerimeter_each (IsPerimeter pref # rest) sref counter h =
    (case (deref (h_sandboxes h) sref, deref (h_perimeters h) pref) of
       (Some s, Some p) \<Rightarrow>
         (case Sandbox_call s ''hasPerimeter'' of
            Some e \<Rightarrow> (Inl e, h)
          | None \<Rightarrow>
              (case hasPerimeter h s (p_purpose p) of
                 Inl e \<Rightarrow> (Inl e, h)
               | Inr found \<Rightarrow>
                   if found then loadPerimeter_each rest sref counter h
                   else and_then (load_new_perimeter sref pref h)
                          (\<lambda>_ h'. loadPerimeter_each rest sref (counter + 1) h')))
     | _ \<Rightarrow> (Inl TypeError, h))"

text \<open>The call \<open>sandbox.loadPerimeter(...perimeters)\<close>.\<close>

definition loadPerimeter :: "heap \<Rightarrow> nat \<Rightarrow> perimeter_arg list \<Rightarrow> (error + nat) \<times> heap" where
  "loadPerimeter h sref perimeters =
    (case deref (h_sandboxes h) sref of
       None \<Rightarrow> (Inl TypeError, h)
     | Some s \<Rightarrow>
         (case Sandbox_call s ''loadPerimeter'' of
            Some e \<Rightarrow> (Inl e, h)
          | None \<Rightarrow> loadPerimeter_each perimeters sref 0 h))"

section \<open>The verdict as the specification words it\<close>

text \<open>
  The specification's reading of \<open>isAllowed\<close>, kept apart from the code's: among the
  rules whose action matches, \<open>allowSet\<close> holds the permit rules whose verification is
  true, \<open>strictBlockSet\<close> the forbid rules whose verification is true and the strict
  permit rules whose verification is false; strictness is the result of the method
  \<open>isStrict()\<close>.  Each rule is verified on the user state of the call.
\<close>

definition verified :: "rule \<Rightarrow> jsval list \<Rightarrow> ustate \<Rightarrow> bool" where
  "verified r args u = (case fst (verify r args u) of Inl e \<Rightarrow> False | Inr v \<Rightarrow> js_truthy v)"

definition spec_allowSet :: "governess \<Rightarrow> string \<Rightarrow> jsval list \<Rightarrow> ustate \<Rightarrow> rule list" where
  "spec_allowSet g action args u =
    filter (\<lambda>r. isOfType r action \<and> isPositive r \<and> verified r args u) (rules g)"

definition spec_strictBlockSet :: "governess \<Rightarrow> string \<Rightarrow> jsval list \<Rightarrow> ustate \<Rightarrow> rule list" where
  "spec_strictBlockSet g action args u =
    filter (\<lambda>r. isOfType r action \<and>
               ((isNegative r \<and> verified r args u) \<or>
                (isPositive r \<and> isStrict r \<and> \<not> verified r args u))) (rules g)"

definition spec_isAllowed :: "governess \<Rightarrow> string \<Rightarrow> jsval list \<Rightarrow> ustate \<Rightarrow> bool" where
  "spec_isAllowed g action args u =
    (if unguarded g then True
     else spec_allowSet g action args u \<noteq> [] \<and> spec_strictBlockSet g action args u = [])"

section \<open>Evaluation rules and auxiliary facts\<close>

lemmas rule_eval =
  Rule_new_def Type_new_def Definition_resolve_def TYPE_REGEX_match_def ci_prefix_def
  ascii_lower_def isRestricted_def getCustomUnsafeList_def getReservedWords_def
  ident_start_def ident_char_def

lemmas verify_eval =
  verify_def verifyItems_def verifyRegex_def isPositive_def isNegative_def isOfType_def
  isStrict_def

lemmas governess_eval =
  HeadGoverness_new_def EasyGoverness_new_def StrictGoverness_new_def isUnguarded_def
  getRules_def isStrict_member_truthy_def isAllowed_def guard_def denied_message_def
  addRule_def

lemmas spec_eval =
  spec_isAllowed_def spec_allowSet_def spec_strictBlockSet_def verified_def

lemmas store_eval =
  loadPerimeter_def load_new_perimeter_def learn_own_governess_def make_purposeGoverness_def
  learn_main_governess_def push_perimeter_def extendPurpose_def Perimeter_set_sandbox_def
  Perimeter_get_sandbox_def Perimeter_get_governess_def hasOwnGoverness_def learnRules_at_def
  learnRules_def hasRule_def Purpose_new_def Purpose_loadPerimeter_def Purpose_keys_def
  Sandbox_keys_def Sandbox_member_def Sandbox_call_def isSandbox_def getPerimeters_def
  hasPerimeter_def Governess_construct_def and_then_def deref_def

text \<open>The constructor of Type raises nothing but a rule-definition error.\<close>

lemma Type_new_error: "Type_new str = Inl e \<Longrightarrow> e = WrongRuleDefinition"
  by (auto simp: Type_new_def split: jsval.splits option.splits prod.splits if_splits)

lemma Rule_new_RawOther: "Rule_new str (RawOther v) = Inl WrongRuleDefinition"
  by (auto simp: Rule_new_def Definition_resolve_def dest: Type_new_error
      split: sum.splits prod.splits)

text \<open>An unguarded governess allows without verifying a rule.\<close>

lemma isAllowed_unguarded: "unguarded g \<Longrightarrow> isAllowed g action args u = (Inr True, u)"
  by (simp add: isAllowed_def isUnguarded_def)

text \<open>
  What the loop of \<open>isAllowed\<close> collects from rules whose verification neither
  throws nor changes the user state: every permit rule that fails to verify lands
  in \<open>strictDisallowRules\<close>, strict or not.
\<close>

lemma isAllowed_each_result:
  assumes "list_all (\<lambda>r. \<not> isl (fst (verify r args u)) \<and> snd (verify r args u) = u) rs"
  shows "isAllowed_each rs args al sd u =
     (Inr (al @ filter (\<lambda>r. isPositive r \<and> verified r args u) rs,
           sd @ filter (\<lambda>r. (isNegative r \<and> verified r args u)
                             \<or> (isPositive r \<and> \<not> verified r args u)) rs), u)"
  using assms
proof (induction rs arbitrary: al sd)
  case Nil
  then show ?case by simp
next
  case (Cons r rs)
  then obtain v where v: "verify r args u = (Inr v, u)"
    by (cases "verify r args u"; cases "fst (verify r args u)") auto
  with Cons show ?case
    by (simp add: verified_def isStrict_member_truthy_def isNegative_def)
qed

lemma isAllowed_guarded:
  assumes "\<not> unguarded g"
    and "list_all (\<lambda>r. \<not> isl (fst (verify r args u)) \<and> snd (verify r args u) = u)
           (getRules g action)"
  shows "isAllowed g action args u =
     (Inr (list_ex (\<lambda>r. isPositive r \<and> verified r args u) (getRules g action)
           \<and> list_all (\<lambda>r. isPositive r = verified r args u) (getRules g action)), u)"
  using assms
  by (auto simp: isAllowed_def isUnguarded_def isAllowed_each_result filter_empty_conv
      list_ex_iff list_all_iff isNegative_def)

lemma isAllowed_no_matching_rule:
  assumes "\<not> unguarded g" and "action \<noteq> []"
    and "filter (\<lambda>r. isOfType r action) (rules g) = []"
  shows "isAllowed g action args u = (Inr False, u)"
  using assms by (simp add: isAllowed_def isUnguarded_def getRules_def)

lemma addRule_each_stops:
  "addRule_each (map IsRule rs @ NotRule v # rest) c g
     = (Inl (ArgumentError learn_message), g\<lparr>rules := rules g @ rs\<rparr>)"
  by (induction rs arbitrary: c g) simp_all

text \<open>
  A rule definition with state: a RegExp that, like one with the \<open>g\<close> flag, matches
  \<open>ab\<close> from \<open>lastIndex\<close> 0 only and moves \<open>lastIndex\<close>, kept in cell 0.  \<open>isAllowed\<close>
  returns true and leaves a state on which \<open>guard\<close>, for the same action and
  arguments, denies.
\<close>

lemma verdict_depends_on_user_state:
  "isAllowed
     (snd (addRule HeadGoverness_new
        [IsRule (projr (Rule_new (JStr ''can read'')
           (RawRegExp (\<lambda>subject u.
              if u 0 = JNum 0 then (Inr (subject = JStr ''ab''), u(0 := JNum 2))
              else (Inr False, u(0 := JNum 0))))))]))
     ''read'' [JStr ''ab''] (\<lambda>c. JNum 0)
     = (Inr True, (\<lambda>c. JNum 0)(0 := JNum 2))
   \<and> fst (guard
     (snd (addRule HeadGoverness_new
        [IsRule (projr (Rule_new (JStr ''can read'')
           (RawRegExp (\<lambda>subject u.
              if u 0 = JNum 0 then (Inr (subject = JStr ''ab''), u(0 := JNum 2))
              else (Inr False, u(0 := JNum 0))))))]))
     ''read'' [JStr ''ab''] ((\<lambda>c. JNum 0)(0 := JNum 2)))
     = Inl (AccessDenied ''Child is not allowed to read ab.'')"
  by (simp add: rule_eval verify_eval governess_eval)

text \<open>
  A repeated \<open>loadPerimeter\<close> on a sandbox object whose methods are in place: when a
  perimeter of the list has the purpose name of \<open>p\<close>, the call returns 0 and
  changes nothing, and inside a longer argument list \<open>p\<close> is passed over.
\<close>

lemma loadPerimeter_repeat:
  assumes "deref (h_sandboxes h) sref = Some s" and "deref (h_perimeters h) pref = Some p"
    and "Sandbox_call s ''loadPerimeter'' = None"
    and "Sandbox_call s ''hasPerimeter'' = None"
    and "Sandbox_call s ''getPerimeters'' = None"
    and "q \<in> set (s_perimeters s)" and "deref (h_perimeters h) q = Some p'"
    and "p_purpose p' = p_purpose p"
  shows "loadPerimeter h sref [IsPerimeter pref] = (Inr 0, h)
       \<and> loadPerimeter_each (IsPerimeter pref # rest) sref counter h
           = loadPerimeter_each rest sref counter h"
proof -
  have "list_ex (\<lambda>q. case deref (h_perimeters h) q of
                        Some p' \<Rightarrow> p_purpose p' = p_purpose p
                      | None \<Rightarrow> False) (s_perimeters s)"
    unfolding list_ex_iff using assms(6-8) by (intro bexI [of _ q]) simp_all
  then have "hasPerimeter h s (p_purpose p) = Inr True"
    using assms(5) by (simp add: hasPerimeter_def getPerimeters_def)
  with assms(1-4) show ?thesis by (simp add: loadPerimeter_def)
qed

text \<open>The first attachment of a perimeter named \<open>hasPerimeter\<close> to an empty sandbox.\<close>

lemma first_load:
  "loadPerimeter
      \<lparr>h_governesses = [HeadGoverness_new],
       h_perimeters =
         [\<lparr>p_purpose = ''hasPerimeter'', p_govern = [(''can play'', RawArray [JStr ''car''])],
           p_expose = [''play''], p_governess = None,
           p_purposeGoverness = None, p_sandbox = None, p_child = JNull,
           p_functions = [''play'']\<rparr>],
       h_sandboxes =
         [\<lparr>s_child = JStr ''ann'', s_governess = 0, s_perimeters = [], s_purposes = []\<rparr>]\<rparr>
      0 [IsPerimeter 0]
   = (Inr 1,
      \<lparr>h_governesses =
         [HeadGoverness_new
            \<lparr>rules := [\<lparr>type_raw = ''can play'', type_type = ''play'', type_isPositive = True,
                         rule_definition = Items [JStr ''car''], rule_perimeter = Some 0\<rparr>]\<rparr>,
          HeadGoverness_new
            \<lparr>rules := [\<lparr>type_raw = ''can play'', type_type = ''play'', type_isPositive = True,
                         rule_definition = Items [JStr ''car''], rule_perimeter = Some 0\<rparr>]\<rparr>],
       h_perimeters =
         [\<lparr>p_purpose = ''hasPerimeter'', p_govern = [(''can play'', RawArray [JStr ''car''])],
           p_expose = [''play''], p_governess = None,
           p_purposeGoverness = Some 1, p_sandbox = Some 0, p_child = JStr ''ann'',
           p_functions = [''play'']\<rparr>],
       h_sandboxes =
         [\<lparr>s_child = JStr ''ann'', s_governess = 0, s_perimeters = [0],
           s_purposes =
             [(''hasPerimeter'',
               \<lparr>purpose_name = ''hasPerimeter'', purpose_sandbox = 0,
                purpose_methods = [(''play'', 0, ''play'')]\<rparr>)]\<rparr>]\<rparr>)"
  by (simp add: store_eval rule_eval governess_eval Let_def)

section \<open>The verdict of a guarded governess\<close>

text \<open>
  Claim C1.  A guarded HeadGoverness allows an action exactly when some matching
  permit rule verifies true and no matching rule is a strict block (a forbid rule
  that verifies true, or a strict permit rule that verifies false).  The code
  departs from this: it tests the member \<open>isStrict\<close> instead of calling it, so a
  permit rule that is not strict blocks as well.  With the two rules
  \<open>can play: [a]\<close> and \<open>can play: [b]\<close>, the second one not strict, the call
  \<open>isAllowed('play', 'a')\<close> returns false, where the stated verdict is true.
\<close>

theorem isAllowed_nonstrict_permit_blocks:
  "isAllowed
     (snd (addRule HeadGoverness_new
        [IsRule (projr (Rule_new (JStr ''can play'') (RawArray [JStr ''a'']))),
         IsRule (projr (Rule_new (JStr ''can play'') (RawArray [JStr ''b''])))]))
     ''play'' [JStr ''a''] u = (Inr False, u)
   \<and> spec_isAllowed
     (snd (addRule HeadGoverness_new
        [IsRule (projr (Rule_new (JStr ''can play'') (RawArray [JStr ''a'']))),
         IsRule (projr (Rule_new (JStr ''can play'') (RawArray [JStr ''b''])))]))
     ''play'' [JStr ''a''] u
   \<and> \<not> isStrict (projr (Rule_new (JStr ''can play'') (RawArray [JStr ''b''])))"
  by (simp add: rule_eval verify_eval governess_eval spec_eval)

section \<open>Verification of a forbid rule\<close>

text \<open>
  Claim C2.  For a forbid rule, \<open>verify\<close> returns true exactly when the forbidden
  condition is matched by the arguments; the comments in \<open>isAllowed\<close> read a true
  verification of a \<open>cannot\<close> rule the same way (the condition is met).  The code of
  \<open>verify\<close> does the opposite.  For the rule \<open>cannot run: [slippery]\<close> it returns
  false on \<open>slippery\<close>, which the definition matches, and true on \<open>dry\<close>, which it
  does not match.  Beside the rule \<open>can run: [slippery, dry]\<close> the governess
  therefore allows to run on \<open>slippery\<close> and denies to run on \<open>dry\<close>.
\<close>

theorem verify_forbid_inverted:
  "verifyItems [JStr ''slippery''] [JStr ''slippery'']
   \<and> verify (projr (Rule_new (JStr ''cannot run'') (RawArray [JStr ''slippery''])))
        [JStr ''slippery''] u = (Inr (JBool False), u)
   \<and> \<not> verifyItems [JStr ''slippery''] [JStr ''dry'']
   \<and> verify (projr (Rule_new (JStr ''cannot run'') (RawArray [JStr ''slippery''])))
        [JStr ''dry''] u = (Inr (JBool True), u)
   \<and> isAllowed
       (snd (addRule HeadGoverness_new
          [IsRule (projr (Rule_new (JStr ''can run'')
                            (RawArray [JStr ''slippery'', JStr ''dry'']))),
           IsRule (projr (Rule_new (JStr ''cannot run'') (RawArray [JStr ''slippery''])))]))
       ''run'' [JStr ''slippery''] u = (Inr True, u)
   \<and> isAllowed
       (snd (addRule HeadGoverness_new
          [IsRule (projr (Rule_new (JStr ''can run'')
                            (RawArray [JStr ''slippery'', JStr ''dry'']))),
           IsRule (projr (Rule_new (JStr ''cannot run'') (RawArray [JStr ''slippery''])))]))
       ''run'' [JStr ''dry''] u = (Inr False, u)"
  by (simp add: rule_eval verify_eval governess_eval)

section \<open>Boolean rule definitions\<close>

text \<open>
  Claim C3.  A sole rule \<open>can X\<close> with the definition \<open>true\<close> makes \<open>isAllowed('X')\<close>
  true, and a sole rule \<open>cannot X\<close> with the definition \<open>true\<close> makes it false.  The
  code never gets that far: \<open>new Rule('can X', true)\<close> and \<open>new Rule('cannot X', true)\<close>
  raise WrongRuleDefinition, and so does \<open>learnRules\<close> on a perimeter that governs
  \<open>can X\<close> by \<open>true\<close>, leaving the governess without the rule.
\<close>

theorem boolean_definition_rejected:
  "Rule_new (JStr ''can X'') (RawOther (JBool True)) = Inl WrongRuleDefinition
   \<and> Rule_new (JStr ''cannot X'') (RawOther (JBool True)) = Inl WrongRuleDefinition
   \<and> learnRules HeadGoverness_new p [(''can X'', RawOther (JBool True))]
       = (Inl WrongRuleDefinition, HeadGoverness_new)"
  by (simp add: Rule_new_RawOther learnRules_def)

section \<open>EasyGoverness\<close>

text \<open>
  Claim C4.  An EasyGoverness is a base governess whose \<open>unguarded\<close> flag starts
  true, and under it a forbid rule that applies still blocks the action; the class
  comment of EasyGoverness says the same (an action is permitted unless a rule
  denies it).  In the code no rule blocks: \<open>isAllowed\<close> returns true for an
  unguarded governess before it reads a rule.  An EasyGoverness that holds
  \<open>cannot X: [a]\<close> allows X on \<open>a\<close>, where the forbidden condition is matched, and
  on \<open>b\<close>, where the rule verifies true.
\<close>

theorem easy_forbid_does_not_block:
  "verifyItems [JStr ''a''] [JStr ''a'']
   \<and> isAllowed
       (snd (addRule EasyGoverness_new
          [IsRule (projr (Rule_new (JStr ''cannot X'') (RawArray [JStr ''a''])))]))
       ''X'' [JStr ''a''] u = (Inr True, u)
   \<and> verify (projr (Rule_new (JStr ''cannot X'') (RawArray [JStr ''a'']))) [JStr ''b''] u
      = (Inr (JBool True), u)
   \<and> isAllowed
       (snd (addRule EasyGoverness_new
          [IsRule (projr (Rule_new (JStr ''cannot X'') (RawArray [JStr ''a''])))]))
       ''X'' [JStr ''b''] u = (Inr True, u)"
  by (simp add: rule_eval verify_eval governess_eval)

section \<open>guard\<close>



section \<open>StrictGoverness\<close>




section \<open>doUnguarded\<close>

text \<open>
  Claim C7.  For a function callback, \<open>doUnguarded\<close> runs the callback on the
  governess with \<open>unguarded\<close> set to true, hands back what the callback returned or
  threw, and leaves the governess as the callback left it except that \<open>unguarded\<close>
  has its value from before the call.
\<close>

theorem doUnguarded_restores:
  "unguarded (fst (snd (doUnguarded g (Some cb) context u))) = unguarded g
   \<and> fst (doUnguarded g (Some cb) context u)
       = fst (cb (if js_truthy context then context else JNull) [] (g\<lparr>unguarded := True\<rparr>) u)
   \<and> fst (snd (doUnguarded g (Some cb) context u))
       = (fst (snd (cb (if js_truthy context then context else JNull) []
                       (g\<lparr>unguarded := True\<rparr>) u)))
           \<lparr>unguarded := unguarded g\<rparr>
   \<and> snd (snd (doUnguarded g (Some cb) context u))
       = snd (snd (cb (if js_truthy context then context else JNull) []
                      (g\<lparr>unguarded := True\<rparr>) u))"
  by (simp add: doUnguarded_def Let_def split: prod.splits)

section \<open>Loading a perimeter twice\<close>

text \<open>
  Claim C8.  When the sandbox already holds a perimeter with the purpose name of
  \<open>p\<close>, \<open>loadPerimeter(p)\<close> returns 0 and changes nothing; the code says so itself
  (skip if the sandbox already has the perimeter).  It fails to do so on a sandbox
  that holds a perimeter whose purpose is named \<open>hasPerimeter\<close>.  The name is not
  restricted, since the restricted names are taken from the own keys of the
  sandbox object; loading the perimeter stores the Purpose on the object under
  that name, where it hides the method.  The first \<open>loadPerimeter\<close> returns 1; the
  repeated one raises TypeError, as does a second mention in the same call.
\<close>

theorem loadPerimeter_repeat_shadowed:
  "fst (loadPerimeter
      \<lparr>h_governesses = [HeadGoverness_new],
       h_perimeters =
         [\<lparr>p_purpose = ''hasPerimeter'', p_govern = [(''can play'', RawArray [JStr ''car''])],
           p_expose = [''play''], p_governess = None,
           p_purposeGoverness = None, p_sandbox = None, p_child = JNull,
           p_functions = [''play'']\<rparr>],
       h_sandboxes =
         [\<lparr>s_child = JStr ''ann'', s_governess = 0, s_perimeters = [], s_purposes = []\<rparr>]\<rparr>
      0 [IsPerimeter 0]) = Inr 1
   \<and> fst (loadPerimeter
       (snd (loadPerimeter
      \<lparr>h_governesses = [HeadGoverness_new],
       h_perimeters =
         [\<lparr>p_purpose = ''hasPerimeter'', p_govern = [(''can play'', RawArray [JStr ''car''])],
           p_expose = [''play''], p_governess = None,
           p_purposeGoverness = None, p_sandbox = None, p_child = JNull,
           p_functions = [''play'']\<rparr>],
       h_sandboxes =
         [\<lparr>s_child = JStr ''ann'', s_governess = 0, s_perimeters = [], s_purposes = []\<rparr>]\<rparr>
      0 [IsPerimeter 0])) 0 [IsPerimeter 0]) = Inl TypeError
   \<and> fst (loadPerimeter
      \<lparr>h_governesses = [HeadGoverness_new],
       h_perimeters =
         [\<lparr>p_purpose = ''hasPerimeter'', p_govern = [(''can play'', RawArray [JStr ''car''])],
           p_expose = [''play''], p_governess = None,
           p_purposeGoverness = None, p_sandbox = None, p_child = JNull,
           p_functions = [''play'']\<rparr>],
       h_sandboxes =
         [\<lparr>s_child = JStr ''ann'', s_governess = 0, s_perimeters = [], s_purposes = []\<rparr>]\<rparr>
      0 [IsPerimeter 0, IsPerimeter 0]) = Inl TypeError"
proof -
  have again: "fst (loadPerimeter
      \<lparr>h_governesses = [HeadGoverness_new],
       h_perimeters =
         [\<lparr>p_purpose = ''hasPerimeter'', p_govern = [(''can play'', RawArray [JStr ''car''])],
           p_expose = [''play''], p_governess = None,
           p_purposeGoverness = None, p_sandbox = None, p_child = JNull,
           p_functions = [''play'']\<rparr>],
       h_sandboxes =
         [\<lparr>s_child = JStr ''ann'', s_governess = 0, s_perimeters = [], s_purposes = []\<rparr>]\<rparr>
      0 [IsPerimeter 0, IsPerimeter 0]) = Inl TypeError"
    by (simp add: store_eval rule_eval governess_eval Let_def)
  show ?thesis
    by (simp only: first_load again fst_conv snd_conv)
       (simp add: loadPerimeter_def Sandbox_call_def Sandbox_member_def Sandbox_keys_def
          deref_def)
qed

section \<open>The sandbox of a perimeter\<close>




section \<open>addRule with an argument that is not a Rule\<close>

text \<open>
  Claim C10.  When the argument list of \<open>addRule\<close> contains a value that is not a
  Rule, \<open>addRule\<close> raises ArgumentError; the Rules before the first such value have
  been appended to the rule list by then and stay there, and nothing at or after
  that position is added.
\<close>

theorem addRule_not_atomic:
  "addRule g (map IsRule rs @ NotRule v # rest)
     = (Inl (ArgumentError learn_message), g\<lparr>rules := rules g @ rs\<rparr>)"
  by (simp add: addRule_def addRule_each_stops)

end
